theory Spec2Isabelle
  imports Complex_Main
begin

section \<open>Python values\<close>

text \<open>
  A Python \<open>str\<close> is a sequence of Unicode code points, so a string is a list of
  code points here; \<open>py\<close> turns an ASCII literal of the source into one.
\<close>

type_synonym pystr = "nat list"

definition py :: "string \<Rightarrow> pystr" where
  "py s = map of_char s"

text \<open>
  The values that travel through \<open>asyncio.sleep\<close>, \<open>json.loads\<close> and the
  arguments of \<open>call_tool\<close>. A float is carried as a real number: the code never
  computes with one, it only passes it on.
\<close>

datatype pyval =
    PyNone
  | PyBool bool
  | PyInt int
  | PyFloat real
  | PyStr pystr
  | PyList "pyval list"
  | PyDict "(pystr \<times> pyval) list"

text \<open>
  What an awaited call does: it returns, it raises an \<open>Exception\<close> (carried as
  \<open>str(e)\<close>), or the task is cancelled there (\<open>asyncio.CancelledError\<close>, which
  \<open>except Exception\<close> does not catch).
\<close>

datatype 'a outcome = Returns 'a | Raises pystr | Cancelled

text \<open>How a loop iteration ends: \<open>continue\<close>, \<open>break\<close>, or an exception that leaves the loop.\<close>

datatype loop_ctl = Continue | Break | Crash

text \<open>\<open>d.get(k, default)\<close> on a dict held as an association list.\<close>

definition dict_get :: "(pystr \<times> pyval) list \<Rightarrow> pystr \<Rightarrow> pyval \<Rightarrow> pyval" where
  "dict_get d k dflt = (case map_of d k of Some v \<Rightarrow> v | None \<Rightarrow> dflt)"

text \<open>
  \<open>str.isspace\<close> of one code point, which is also what \<open>\s\<close> matches in a
  \<open>str\<close> pattern of \<open>re\<close>: CPython's whitespace table.
\<close>

definition isspace :: "nat \<Rightarrow> bool" where
  "isspace c =
     ((9 \<le> c \<and> c \<le> 13) \<or> (28 \<le> c \<and> c \<le> 32) \<or> c = 133 \<or> c = 160 \<or> c = 5760
      \<or> (8192 \<le> c \<and> c \<le> 8202) \<or> c = 8232 \<or> c = 8233 \<or> c = 8239 \<or> c = 8287
      \<or> c = 12288)"

definition startswith :: "pystr \<Rightarrow> pystr \<Rightarrow> bool" where
  "startswith s p = (take (length p) s = p)"

text \<open>\<open>needle in s\<close>.\<close>

fun contains :: "pystr \<Rightarrow> pystr \<Rightarrow> bool" where
  "contains needle [] = (needle = [])"
| "contains needle (c # cs) = (startswith (c # cs) needle \<or> contains needle cs)"

text \<open>\<open>s.strip()\<close> with no argument removes leading and trailing whitespace.\<close>

definition strip :: "pystr \<Rightarrow> pystr" where
  "strip s = rev (dropWhile isspace (rev (dropWhile isspace s)))"

text \<open>\<open>s.find(c)\<close> and \<open>s.rfind(c)\<close> for a one-character needle; \<open>-1\<close> when absent.\<close>

fun str_find :: "pystr \<Rightarrow> nat \<Rightarrow> int" where
  "str_find [] c = - 1"
| "str_find (x # xs) c =
     (if x = c then 0 else (let r = str_find xs c in if r < 0 then - 1 else r + 1))"

definition str_rfind :: "pystr \<Rightarrow> nat \<Rightarrow> int" where
  "str_rfind s c = (let r = str_find (rev s) c in if r < 0 then - 1 else int (length s) - 1 - r)"

text \<open>
  \<open>s[a:b]\<close> for \<open>0 \<le> a\<close> and \<open>0 \<le> b\<close>, the only indices the code slices with
  (\<open>find\<close> of a character that is present, and \<open>rfind + 1\<close>).
\<close>

definition slice :: "pystr \<Rightarrow> int \<Rightarrow> int \<Rightarrow> pystr" where
  "slice s a b = take (nat b - nat a) (drop (nat a) s)"

text \<open>
  \<open>s.lower()\<close> on the ASCII letters. The code only searches the lowered string for
  the ASCII needle \<open>rate_limited\<close>; the code points outside ASCII that Python's
  tables lower to an ASCII letter of that needle are U+0130 alone, which lowers to
  \<open>i\<close> followed by U+0307 and so cannot complete the needle either.
\<close>

definition lower :: "pystr \<Rightarrow> pystr" where
  "lower s = map (\<lambda>c. if 65 \<le> c \<and> c \<le> 90 then c + 32 else c) s"

section \<open>Liveness records (monitoring/liveness.py)\<close>

text \<open>
  \<open>datetime\<close> and \<open>timedelta\<close> count whole microseconds, so a point in time and
  a duration are integers. \<open>datetime.now(UTC)\<close> is the parameter \<open>now\<close>.
\<close>

record liveness_record =
  name :: pystr
  timeout :: int
  metadata :: "(pystr \<times> pyval) list"
  last_heartbeat :: "int option"
  consecutive_misses :: int

definition beat :: "int \<Rightarrow> liveness_record \<Rightarrow> liveness_record" where
  "beat now r = r\<lparr>last_heartbeat := Some now, consecutive_misses := 0\<rparr>"

definition mark_miss :: "liveness_record \<Rightarrow> liveness_record" where
  "mark_miss r = r\<lparr>consecutive_misses := consecutive_misses r + 1\<rparr>"

definition is_alive :: "int \<Rightarrow> liveness_record \<Rightarrow> bool" where
  "is_alive now r =
     (case last_heartbeat r of None \<Rightarrow> False | Some t \<Rightarrow> now - t \<le> timeout r)"

text \<open>\<open>LivenessRegistry.register\<close> builds the record; \<open>timeout\<close> arrives in microseconds.\<close>

definition register :: "pystr \<Rightarrow> int \<Rightarrow> (pystr \<times> pyval) list \<Rightarrow> liveness_record" where
  "register n t md =
     \<lparr>name = n, timeout = t, metadata = md, last_heartbeat = None, consecutive_misses = 0\<rparr>"

section \<open>The message store and the queue manager's state (queue_manager.py)\<close>

datatype status = Pending | Processing | Processed | Failed

text \<open>
  A queued message as the processor reads it: \<open>msg.id\<close>, \<open>msg.sender\<close>,
  \<open>msg.content\<close>, \<open>msg.timestamp\<close>; \<open>agent\<close> and \<open>status\<close> are the other two
  fields of the store's row.
\<close>

record queued_message =
  m_id :: pystr
  m_agent :: pystr
  m_sender :: pystr
  m_content :: pystr
  m_timestamp :: int
  m_status :: status

datatype processing_order = Asc | Desc

text \<open>
  Modelled from the spec: the message store (\<open>ax_agent_studio.message_store\<close>) is not
  among the sources. The queue manager only calls it, so it is a parameter: a record of
  the operations the code calls, over any store state \<open>'s\<close>. An operation that writes
  returns the new state.
\<close>

record 's message_store =
  store_message :: "pystr \<Rightarrow> pystr \<Rightarrow> pystr \<Rightarrow> pystr \<Rightarrow> 's \<Rightarrow> bool \<times> 's"
  get_backlog_count :: "pystr \<Rightarrow> 's \<Rightarrow> int"
  get_pending_messages :: "pystr \<Rightarrow> int \<Rightarrow> processing_order \<Rightarrow> 's \<Rightarrow> queued_message list"
  mark_processing_started :: "pystr \<Rightarrow> pystr \<Rightarrow> 's \<Rightarrow> 's"
  mark_processed :: "pystr \<Rightarrow> pystr \<Rightarrow> 's \<Rightarrow> 's"
  is_agent_paused :: "pystr \<Rightarrow> 's \<Rightarrow> bool"
  check_auto_resume :: "pystr \<Rightarrow> 's \<Rightarrow> bool \<times> 's"

text \<open>The fields of \<open>QueueManager\<close> that the loops read and write (\<open>__init__\<close>).\<close>

record queue_manager =
  agent_name :: pystr
  mark_read :: bool
  poll_interval :: real
  startup_sweep :: bool
  startup_sweep_limit :: int
  heartbeat_interval :: int
  poll_backoff :: int
  poll_backoff_max :: int
  poll_consecutive_errors :: int

definition init :: "pystr \<Rightarrow> bool \<Rightarrow> real \<Rightarrow> bool \<Rightarrow> int \<Rightarrow> int \<Rightarrow> queue_manager" where
  "init agent mr interval sweep sweep_limit hb =
     \<lparr>agent_name = agent, mark_read = mr, poll_interval = interval, startup_sweep = sweep,
      startup_sweep_limit = sweep_limit, heartbeat_interval = hb,
      poll_backoff = 5, poll_backoff_max = 60, poll_consecutive_errors = 0\<rparr>"

text \<open>The dict the processor builds for each pending message (id, sender, content, timestamp).\<close>

record snapshot =
  s_id :: pystr
  s_sender :: pystr
  s_content :: pystr
  s_timestamp :: int

text \<open>
  The dict handed to the handler. \<open>batch_size\<close> and \<open>history_messages\<close> are keys of
  batch mode only; \<open>queue_status\<close> is flattened into \<open>backlog_count\<close> and
  \<open>pending_messages\<close>.
\<close>

record handler_input =
  h_content :: pystr
  h_sender :: pystr
  h_id :: pystr
  h_timestamp :: int
  batch_mode :: bool
  batch_size :: "nat option"
  history_messages :: "snapshot list option"
  backlog_count :: int
  pending_messages :: "snapshot list"
  queue_messages :: "snapshot list"

text \<open>
  What the handler returns: a \<open>str\<close>, or another object, for which \<open>str(response)\<close>
  gives a string or raises.
\<close>

datatype response = StrResponse pystr | ObjResponse "pystr option"

text \<open>
  The calls a loop makes on the store, the session, the handler and the clock, in program
  order. \<open>GetBacklogCount\<close> and \<open>GetPendingMessages\<close> carry what the store
  returned.
\<close>

datatype event =
    Sleep pyval
  | CallTool pystr "(pystr \<times> pyval) list"
  | Handler handler_input
  | StoreMessage pystr pystr pystr pystr
  | CheckAutoResume pystr
  | GetBacklogCount pystr int
  | GetPendingMessages pystr int processing_order "queued_message list"
  | MarkProcessingStarted pystr pystr
  | MarkProcessed pystr pystr

section \<open>The mention parser (\<open>_parse_message\<close>)\<close>

text \<open>
  The result of the remote \<open>messages\<close> tool. \<open>messages\<close> and \<open>events\<close> are
  lists of dicts with string values under \<open>id\<close>, \<open>sender_name\<close> and
  \<open>content\<close>; a key may be missing, an attribute may be missing or \<open>None\<close>.
\<close>

record message_dict =
  d_id :: "pystr option"
  d_sender_name :: "pystr option"
  d_content :: "pystr option"

datatype content_block = TextBlock pystr | OtherBlock

text \<open>
  \<open>result.content\<close>: the attribute is missing (reading it raises), it is falsy, it is
  an object with a \<open>text\<close> attribute, or it is a list of blocks, of which the first
  has a \<open>text\<close> or has none.
\<close>

datatype content_attr =
    NoContent
  | FalsyContent
  | TextContent pystr
  | ContentBlocks "content_block list"

record tool_result =
  r_messages :: "message_dict list option"
  r_events :: "message_dict list option"
  r_content :: content_attr

definition get_or :: "'a option \<Rightarrow> 'a \<Rightarrow> 'a" where
  "get_or v dflt = (case v of Some x \<Rightarrow> x | None \<Rightarrow> dflt)"

text \<open>
  \<open>re.search(mention_pattern, content)\<close>, where the pattern is
  \<open>(?:^|[\s\n])@AGENT(?:[\s\n]|$)\<close> with the escaped agent name for \<open>AGENT\<close>: the
  pattern matches with its \<open>@\<close> at index \<open>i\<close> when \<open>i\<close> is the start of the
  content or follows a whitespace character, the literal agent name follows the \<open>@\<close>,
  and after the name comes a whitespace character or the end of the content. (Without
  \<open>re.MULTILINE\<close>, \<open>$\<close> also matches before a final newline, which is whitespace
  already.)
\<close>

definition left_boundary :: "pystr \<Rightarrow> nat \<Rightarrow> bool" where
  "left_boundary s i = (i = 0 \<or> isspace (s ! (i - 1)))"

definition right_boundary :: "pystr \<Rightarrow> nat \<Rightarrow> bool" where
  "right_boundary s j = (j = length s \<or> (j < length s \<and> isspace (s ! j)))"

definition occurs_at :: "pystr \<Rightarrow> pystr \<Rightarrow> nat \<Rightarrow> bool" where
  "occurs_at needle s i = startswith (drop i s) needle"

definition mention_at :: "pystr \<Rightarrow> pystr \<Rightarrow> nat \<Rightarrow> bool" where
  "mention_at agent s i =
     (left_boundary s i \<and> occurs_at (64 # agent) s i \<and> right_boundary s (i + length (64 # agent)))"

definition direct_mention :: "pystr \<Rightarrow> pystr \<Rightarrow> bool" where
  "direct_mention agent s = list_ex (mention_at agent s) [0..<length s]"

text \<open>The loop over \<open>result.messages\<close>: the first direct mention that is not a self-mention.\<close>

fun scan_messages :: "pystr \<Rightarrow> message_dict list \<Rightarrow> (pystr \<times> pystr \<times> pystr) option" where
  "scan_messages agent [] = None"
| "scan_messages agent (msg # msgs) =
     (let content = get_or (d_content msg) [] in
      if direct_mention agent content then
        (let msg_id = get_or (d_id msg) (py ''unknown'');
             sender = get_or (d_sender_name msg) (py ''unknown'')
         in if sender = agent then scan_messages agent msgs
            else Some (msg_id, sender, content))
      else scan_messages agent msgs)"

text \<open>
  \<open>re.search(r"\[id:([a-f0-9-]+)\]", data)\<close>: at the leftmost \<open>[id:\<close> that is
  followed by a non-empty run of \<open>a-f\<close>, \<open>0-9\<close>, \<open>-\<close> and then \<open>]\<close>; the
  group is the run (it is maximal, since \<open>]\<close> is not in the class).
\<close>

definition id_char :: "nat \<Rightarrow> bool" where
  "id_char c = ((97 \<le> c \<and> c \<le> 102) \<or> (48 \<le> c \<and> c \<le> 57) \<or> c = 45)"

definition match_id :: "pystr \<Rightarrow> pystr option" where
  "match_id s =
     (if startswith s (py ''[id:'') then
        (let run = takeWhile id_char (drop 4 s); rest = dropWhile id_char (drop 4 s)
         in if run \<noteq> [] \<and> startswith rest (py '']'') then Some run else None)
      else None)"

fun search_id :: "pystr \<Rightarrow> pystr option" where
  "search_id [] = None"
| "search_id (c # cs) =
     (case match_id (c # cs) of Some g \<Rightarrow> Some g | None \<Rightarrow> search_id cs)"

text \<open>
  \<open>re.search(r"\<bullet> ([^:]+): (@\S+)\s+(.+)", data)\<close>, the bullet being U+2022: a
  non-empty run without a colon (maximal, since \<open>: \<close> must follow), \<open>: @\<close>, a
  non-empty maximal run of non-whitespace, then whitespace and at least one character
  that is not a newline. The whitespace run may give characters back to \<open>.+\<close>, so the
  tail matches when a character follows the run, or when the run holds, after its first
  character, one that is not a newline. Group 1, the sender, is the first run.
\<close>

definition match_mention_line :: "pystr \<Rightarrow> pystr option" where
  "match_mention_line s =
     (if startswith s [8226, 32] then
        (let t = drop 2 s;
             sender = takeWhile (\<lambda>c. c \<noteq> 58) t;
             r1 = dropWhile (\<lambda>c. c \<noteq> 58) t;
             r2 = drop 3 r1;
             word = takeWhile (\<lambda>c. \<not> isspace c) r2;
             r3 = dropWhile (\<lambda>c. \<not> isspace c) r2;
             ws = takeWhile isspace r3;
             r4 = dropWhile isspace r3
         in if sender \<noteq> [] \<and> startswith r1 [58, 32, 64] \<and> word \<noteq> [] \<and> ws \<noteq> []
               \<and> (r4 \<noteq> [] \<or> list_ex (\<lambda>c. c \<noteq> 10) (tl ws))
            then Some sender else None)
      else None)"

fun search_mention_line :: "pystr \<Rightarrow> pystr option" where
  "search_mention_line [] = None"
| "search_mention_line (c # cs) =
     (case match_mention_line (c # cs) of Some g \<Rightarrow> Some g | None \<Rightarrow> search_mention_line cs)"

text \<open>The text format: everything after \<open>messages_data\<close> has been read.\<close>

definition parse_text :: "pystr \<Rightarrow> pystr \<Rightarrow> (pystr \<times> pystr \<times> pystr) option" where
  "parse_text agent messages_data =
     (if messages_data = [] then None
      else if contains (py ''WAIT SUCCESS'') messages_data
              \<or> contains (py ''No mentions'') messages_data then None
      else (case search_id messages_data of
              None \<Rightarrow> None
            | Some message_id \<Rightarrow>
                (case search_mention_line messages_data of
                   None \<Rightarrow> None
                 | Some sender \<Rightarrow>
                     if \<not> contains (64 # agent) messages_data then None
                     else if sender = agent then None
                     else Some (message_id, sender, messages_data))))"

text \<open>
  \<open>_parse_message\<close>. \<open>None\<close> is the source's \<open>None\<close>, also where an exception is
  caught (a missing \<open>content\<close> attribute, a first block without \<open>text\<close>).
\<close>

definition parse_message :: "pystr \<Rightarrow> tool_result \<Rightarrow> (pystr \<times> pystr \<times> pystr) option" where
  "parse_message agent result =
     (case r_messages result of
        Some (m # ms) \<Rightarrow> scan_messages agent (m # ms)
      | _ \<Rightarrow>
        (case r_events result of
           Some (ev # evs) \<Rightarrow>
             Some (get_or (d_id ev) (py ''unknown''),
                   get_or (d_sender_name ev) (py ''unknown''),
                   get_or (d_content ev) [])
         | _ \<Rightarrow>
           (case r_content result of
              NoContent \<Rightarrow> None
            | FalsyContent \<Rightarrow> None
            | TextContent t \<Rightarrow> parse_text agent t
            | ContentBlocks [] \<Rightarrow> None
            | ContentBlocks (TextBlock t # _) \<Rightarrow> parse_text agent t
            | ContentBlocks (OtherBlock # _) \<Rightarrow> None)))"

section \<open>The error classifier (\<open>_parse_error_and_get_wait_time\<close>)\<close>

datatype error_type = rate_limit | connection_timeout | connection_error | unknown

text \<open>
  \<open>json.loads\<close> is the standard library's: a parameter \<open>json_loads\<close>, \<open>None\<close>
  where it raises. \<open>error_json.get\<close> raises on a value that is no dict; the
  \<open>try\<close> catches both and the fallback of 30 seconds follows. \<open>error\<close> is given
  as \<open>str(error)\<close>.
\<close>

definition parse_error_and_get_wait_time ::
  "(pystr \<Rightarrow> pyval option) \<Rightarrow> queue_manager \<Rightarrow> pystr \<Rightarrow> error_type \<times> pyval" where
  "parse_error_and_get_wait_time json_loads self error_str =
     (if contains (py ''HTTP 429'') error_str \<or> contains (py ''rate_limited'') (lower error_str)
      then
        (case (if contains (py ''{'') error_str then
                 (let json_start = str_find error_str 123;
                      json_end = str_rfind error_str 125 + 1
                  in case json_loads (slice error_str json_start json_end) of
                       Some (PyDict error_json) \<Rightarrow>
                         Some (dict_get error_json (py ''retry_after'') (PyInt 30))
                     | _ \<Rightarrow> None)
               else None) of
           Some retry_after \<Rightarrow> (rate_limit, retry_after)
         | None \<Rightarrow> (rate_limit, PyInt 30))
      else if contains (py ''ConnectTimeoutError'') error_str
              \<or> contains (py ''Connection timeout'') error_str
              \<or> contains (py ''TimeoutError'') error_str
      then (connection_timeout, PyInt (min (poll_backoff self) (poll_backoff_max self)))
      else if contains (py ''ECONNRESET'') error_str
              \<or> contains (py ''ConnectionResetError'') error_str
              \<or> contains (py ''ConnectionRefusedError'') error_str
              \<or> contains (py ''OSError'') error_str
      then (connection_error, PyInt (min (poll_backoff self) (poll_backoff_max self)))
      else (unknown, PyInt (min (poll_backoff self) (poll_backoff_max self))))"

section \<open>The poller (\<open>poll_and_store\<close>)\<close>

text \<open>\<open>asyncio.sleep(delay)\<close> compares \<open>delay\<close> with 0 and raises on a value that is no number.\<close>

definition sleep_raises :: "pyval \<Rightarrow> bool" where
  "sleep_raises v = (case v of PyInt _ \<Rightarrow> False | PyFloat _ \<Rightarrow> False | PyBool _ \<Rightarrow> False | _ \<Rightarrow> True)"

definition check_args :: "queue_manager \<Rightarrow> (pystr \<times> pyval) list" where
  "check_args self =
     [(py ''action'', PyStr (py ''check'')), (py ''filter_agent'', PyStr (agent_name self)),
      (py ''wait'', PyBool False), (py ''mark_read'', PyBool (mark_read self))]"

text \<open>The reset both successful paths of the poller share.\<close>

definition reset_backoff :: "queue_manager \<Rightarrow> queue_manager" where
  "reset_backoff self =
     (if poll_consecutive_errors self > 0
      then self\<lparr>poll_consecutive_errors := 0, poll_backoff := 5\<rparr> else self)"

text \<open>
  The \<open>except Exception\<close> branch of the poller. An exception raised by the sleep inside
  it leaves the loop.
\<close>

definition poll_failure ::
  "(pystr \<Rightarrow> pyval option) \<Rightarrow> queue_manager \<Rightarrow> pystr
     \<Rightarrow> queue_manager \<times> event list \<times> loop_ctl" where
  "poll_failure json_loads self error_str =
     (case parse_error_and_get_wait_time json_loads self error_str of
        (error_type, wait_seconds) \<Rightarrow>
          (let self1 = self\<lparr>poll_consecutive_errors := poll_consecutive_errors self + 1\<rparr>
           in if sleep_raises wait_seconds then (self1, [Sleep wait_seconds], Crash)
              else if error_type = rate_limit then (self1, [Sleep wait_seconds], Continue)
              else if error_type = connection_timeout \<or> error_type = connection_error then
                (self1\<lparr>poll_backoff := min (poll_backoff self1 * 2) (poll_backoff_max self1)\<rparr>,
                 [Sleep wait_seconds], Continue)
              else
                (self1\<lparr>poll_backoff := min (poll_backoff self1 * 2) (poll_backoff_max self1)\<rparr>,
                 [Sleep wait_seconds], Continue)))"

text \<open>
  One pass through the body of \<open>while self._running\<close>. \<open>session\<close> is what
  \<open>self.session.call_tool\<close> does on this call.
\<close>

definition poll_iteration ::
  "'s message_store \<Rightarrow> (pystr \<Rightarrow> pyval option)
     \<Rightarrow> (pystr \<Rightarrow> (pystr \<times> pyval) list \<Rightarrow> tool_result outcome)
     \<Rightarrow> queue_manager \<Rightarrow> 's \<Rightarrow> queue_manager \<times> 's \<times> event list \<times> loop_ctl" where
  "poll_iteration store json_loads session self st =
     (let agent = agent_name self; call = CallTool (py ''messages'') (check_args self) in
      if is_agent_paused store agent st then
        (self, snd (check_auto_resume store agent st),
         [CheckAutoResume agent, Sleep (PyInt 1)], Continue)
      else
        (case session (py ''messages'') (check_args self) of
           Cancelled \<Rightarrow> (self, st, [call], Break)
         | Raises error_str \<Rightarrow>
             (case poll_failure json_loads self error_str of
                (self1, evs, ctl) \<Rightarrow> (self1, st, call # evs, ctl))
         | Returns result \<Rightarrow>
             (case parse_message agent result of
                None \<Rightarrow> (reset_backoff self, st, [call, Sleep (PyInt 5)], Continue)
              | Some (msg_id, sender, content) \<Rightarrow>
                  (case store_message store msg_id agent sender content st of
                     (success, st1) \<Rightarrow>
                       if success then
                         (reset_backoff self, st1,
                          [call, StoreMessage msg_id agent sender content,
                           GetBacklogCount agent (get_backlog_count store agent st1)],
                          Continue)
                       else
                         (self, st1, [call, StoreMessage msg_id agent sender content],
                          Continue)))))"

text \<open>
  The loop, over the iterations it gets to run: each comes with what the session does on
  its call and with what the other tasks did to the store since the last one. The loop
  stops early on \<open>break\<close> or on an exception that leaves it.
\<close>

fun poll_and_store ::
  "'s message_store \<Rightarrow> (pystr \<Rightarrow> pyval option)
     \<Rightarrow> ((pystr \<Rightarrow> (pystr \<times> pyval) list \<Rightarrow> tool_result outcome) \<times> ('s \<Rightarrow> 's)) list
     \<Rightarrow> queue_manager \<Rightarrow> 's \<Rightarrow> queue_manager \<times> 's \<times> event list \<times> loop_ctl" where
  "poll_and_store store json_loads [] self st = (self, st, [], Continue)"
| "poll_and_store store json_loads ((session, others) # rest) self st =
     (case poll_iteration store json_loads session self (others st) of
        (self1, st1, evs, ctl) \<Rightarrow>
          if ctl = Continue then
            (case poll_and_store store json_loads rest self1 st1 of
               (self2, st2, evs2, ctl2) \<Rightarrow> (self2, st2, evs @ evs2, ctl2))
          else (self1, st1, evs, ctl))"

section \<open>The startup sweep (\<open>_startup_sweep\<close>)\<close>





section \<open>The processor (\<open>process_queue\<close>)\<close>

definition snapshot_of :: "queued_message \<Rightarrow> snapshot" where
  "snapshot_of msg =
     \<lparr>s_id = m_id msg, s_sender = m_sender msg, s_content = m_content msg,
      s_timestamp = m_timestamp msg\<rparr>"

text \<open>
  The dict built for the handler from a non-empty \<open>all_pending\<close>, whose first message
  is \<open>current_msg\<close> and whose others are \<open>all_pending[1:]\<close>.
\<close>

definition handler_input_of ::
  "processing_order \<Rightarrow> int \<Rightarrow> queued_message \<Rightarrow> queued_message list \<Rightarrow> handler_input" where
  "handler_input_of processing_order backlog current_msg others =
     (let all_pending = current_msg # others;
          n = length all_pending;
          queue_snapshot = map snapshot_of all_pending
      in if n > 1 then
           (let history_msgs = (if processing_order = Desc then rev others else others) in
            \<lparr>h_content = m_content current_msg, h_sender = m_sender current_msg,
             h_id = m_id current_msg, h_timestamp = m_timestamp current_msg,
             batch_mode = True, batch_size = Some n,
             history_messages = Some (map snapshot_of history_msgs),
             backlog_count = backlog, pending_messages = queue_snapshot,
             queue_messages = queue_snapshot\<rparr>)
         else
           \<lparr>h_content = m_content current_msg, h_sender = m_sender current_msg,
            h_id = m_id current_msg, h_timestamp = m_timestamp current_msg,
            batch_mode = False, batch_size = None, history_messages = None,
            backlog_count = backlog, pending_messages = queue_snapshot,
            queue_messages = queue_snapshot\<rparr>)"

text \<open>\<open>response if isinstance(response, str) else str(response)\<close>; \<open>None\<close> where \<open>str\<close> raises.\<close>

definition response_str :: "response \<Rightarrow> pystr option" where
  "response_str r = (case r of StrResponse s \<Rightarrow> Some s | ObjResponse s \<Rightarrow> s)"

definition send_args :: "pystr \<Rightarrow> pystr \<Rightarrow> (pystr \<times> pyval) list" where
  "send_args send_content parent =
     [(py ''action'', PyStr (py ''send'')), (py ''content'', PyStr send_content),
      (py ''parent_message_id'', PyStr parent)]"

text \<open>
  From \<open>Mark all as processing\<close> to the end of the inner \<open>try\<close>, for a non-empty
  \<open>all_pending = current_msg # others\<close>. Both the \<open>try\<close> body and its
  \<open>except Exception\<close> end with the loop that marks every message processed; a
  cancellation inside the handler or the send reaches neither and breaks the outer loop.
\<close>

definition process_batch ::
  "'s message_store \<Rightarrow> (handler_input \<Rightarrow> response outcome)
     \<Rightarrow> (pystr \<Rightarrow> (pystr \<times> pyval) list \<Rightarrow> tool_result outcome)
     \<Rightarrow> queue_manager \<Rightarrow> processing_order \<Rightarrow> int \<Rightarrow> queued_message \<Rightarrow> queued_message list
     \<Rightarrow> 's \<Rightarrow> 's \<times> event list \<times> loop_ctl" where
  "process_batch store handler session self processing_order backlog current_msg others st =
     (let agent = agent_name self;
          all_pending = current_msg # others;
          st1 = fold (\<lambda>msg. mark_processing_started store (m_id msg) agent) all_pending st;
          started = map (\<lambda>msg. MarkProcessingStarted (m_id msg) agent) all_pending;
          input = handler_input_of processing_order backlog current_msg others;
          st2 = fold (\<lambda>msg. mark_processed store (m_id msg) agent) all_pending st1;
          finished = map (\<lambda>msg. MarkProcessed (m_id msg) agent) all_pending
      in case handler input of
           Cancelled \<Rightarrow> (st1, started @ [Handler input], Break)
         | Raises e \<Rightarrow> (st2, started @ [Handler input] @ finished, Continue)
         | Returns response \<Rightarrow>
             (case response_str response of
                None \<Rightarrow> (st2, started @ [Handler input] @ finished, Continue)
              | Some r \<Rightarrow>
                  if r \<noteq> [] \<and> strip r \<noteq> [] then
                    (let send = CallTool (py ''messages'') (send_args r (m_id current_msg)) in
                     case session (py ''messages'') (send_args r (m_id current_msg)) of
                       Cancelled \<Rightarrow> (st1, started @ [Handler input, send], Break)
                     | Raises e \<Rightarrow> (st2, started @ [Handler input, send] @ finished, Continue)
                     | Returns ack \<Rightarrow> (st2, started @ [Handler input, send] @ finished, Continue))
                  else (st2, started @ [Handler input] @ finished, Continue)))"

text \<open>
  The block \<open>Check if agent is paused\<close>: whether the iteration goes on to the queue,
  the store after the check, and the store calls that write.
\<close>

definition pause_gate :: "'s message_store \<Rightarrow> pystr \<Rightarrow> 's \<Rightarrow> bool \<times> 's \<times> event list" where
  "pause_gate store agent st =
     (if is_agent_paused store agent st then
        (case check_auto_resume store agent st of
           (resumed, st') \<Rightarrow> (resumed, st', [CheckAutoResume agent]))
      else (True, st, []))"

text \<open>
  One pass through the body of \<open>while self._running\<close>. \<open>kill_switch\<close> is
  \<open>kill_switch_file.exists()\<close>.
\<close>

definition process_iteration ::
  "'s message_store \<Rightarrow> (handler_input \<Rightarrow> response outcome)
     \<Rightarrow> (pystr \<Rightarrow> (pystr \<times> pyval) list \<Rightarrow> tool_result outcome)
     \<Rightarrow> bool \<Rightarrow> queue_manager \<Rightarrow> 's \<Rightarrow> 's \<times> event list \<times> loop_ctl" where
  "process_iteration store handler session kill_switch self st =
     (let agent = agent_name self in
      if kill_switch then (st, [Sleep (PyInt 5)], Continue)
      else
        (case pause_gate store agent st of
           (go, st0, gate) \<Rightarrow>
             if \<not> go then (st0, gate @ [Sleep (PyInt 5)], Continue)
             else
               (let backlog = get_backlog_count store agent st0;
                    processing_order = (if backlog > 100 then Asc else Desc);
                    all_pending = get_pending_messages store agent 100 processing_order st0;
                    fetch = gate @ [GetBacklogCount agent backlog,
                                    GetPendingMessages agent 100 processing_order all_pending]
                in case all_pending of
                     [] \<Rightarrow> (st0, fetch @ [Sleep (PyFloat (poll_interval self))], Continue)
                   | current_msg # others \<Rightarrow>
                       (case process_batch store handler session self processing_order backlog
                               current_msg others st0 of
                          (st', evs, ctl) \<Rightarrow> (st', fetch @ evs, ctl)))))"

text \<open>
  The store as the iteration reads the queue (after the pause check), and the backlog
  count it reads there.
\<close>

definition store_at_fetch :: "'s message_store \<Rightarrow> queue_manager \<Rightarrow> 's \<Rightarrow> 's" where
  "store_at_fetch store self st = fst (snd (pause_gate store (agent_name self) st))"

definition backlog_read :: "'s message_store \<Rightarrow> queue_manager \<Rightarrow> 's \<Rightarrow> int" where
  "backlog_read store self st = get_backlog_count store (agent_name self) (store_at_fetch store self st)"

text \<open>
  What one iteration of the processor meets: the kill switch, the handler, the session,
  and what the other tasks did to the store since the last iteration.
\<close>

record 's processor_env =
  e_kill_switch :: bool
  e_handler :: "handler_input \<Rightarrow> response outcome"
  e_session :: "pystr \<Rightarrow> (pystr \<times> pyval) list \<Rightarrow> tool_result outcome"
  e_others :: "'s \<Rightarrow> 's"

fun process_queue ::
  "'s message_store \<Rightarrow> 's processor_env list \<Rightarrow> queue_manager \<Rightarrow> 's
     \<Rightarrow> 's \<times> event list \<times> loop_ctl" where
  "process_queue store [] self st = (st, [], Continue)"
| "process_queue store (env # rest) self st =
     (case process_iteration store (e_handler env) (e_session env) (e_kill_switch env) self
             (e_others env st) of
        (st1, evs, ctl) \<Rightarrow>
          if ctl = Continue then
            (case process_queue store rest self st1 of
               (st2, evs2, ctl2) \<Rightarrow> (st2, evs @ evs2, ctl2))
          else (st1, evs, ctl))"

section \<open>A store to run the loops on\<close>

text \<open>
  Modelled from the spec: a message store as the spec's interface section describes it,
  for running the loops on concrete inputs. Rows are kept in insertion order;
  \<open>store_message\<close> refuses an id it already holds and leaves the state unchanged;
  the backlog is the number of pending rows of the agent; pending rows are fetched by
  timestamp in the order asked for, up to the limit; the two marks set the status of
  the row with that id and agent. The pause flag and a due auto-resume are two booleans.
\<close>

record store_state =
  rows :: "queued_message list"
  clock :: int
  paused :: bool
  resume_due :: bool

definition pending_rows :: "pystr \<Rightarrow> store_state \<Rightarrow> queued_message list" where
  "pending_rows agent s = filter (\<lambda>r. m_agent r = agent \<and> m_status r = Pending) (rows s)"

definition set_status :: "status \<Rightarrow> pystr \<Rightarrow> pystr \<Rightarrow> store_state \<Rightarrow> store_state" where
  "set_status new msg_id agent s =
     s\<lparr>rows := map (\<lambda>r. if m_id r = msg_id \<and> m_agent r = agent then r\<lparr>m_status := new\<rparr> else r)
                  (rows s)\<rparr>"

definition spec_store :: "store_state message_store" where
  "spec_store =
     \<lparr>store_message = (\<lambda>msg_id agent sender content s.
          if msg_id \<in> set (map m_id (rows s)) then (False, s)
          else (True, s\<lparr>rows := rows s @ [\<lparr>m_id = msg_id, m_agent = agent, m_sender = sender,
                                            m_content = content, m_timestamp = clock s,
                                            m_status = Pending\<rparr>],
                        clock := clock s + 1\<rparr>)),
      get_backlog_count = (\<lambda>agent s. int (length (pending_rows agent s))),
      get_pending_messages = (\<lambda>agent limit ord s.
          take (nat limit)
            (case ord of Asc \<Rightarrow> sort_key m_timestamp (pending_rows agent s)
                       | Desc \<Rightarrow> rev (sort_key m_timestamp (pending_rows agent s)))),
      mark_processing_started = set_status Processing,
      mark_processed = set_status Processed,
      is_agent_paused = (\<lambda>agent s. paused s),
      check_auto_resume = (\<lambda>agent s.
          if paused s \<and> resume_due s then (True, s\<lparr>paused := False, resume_due := False\<rparr>)
          else (False, s))\<rparr>"

section \<open>Observations on a run, and inputs to run the loops on\<close>

text \<open>The \<open>call_tool\<close> calls among the events of a run.\<close>

definition tool_calls :: "event list \<Rightarrow> event list" where
  "tool_calls evs = filter (\<lambda>e. case e of CallTool t args \<Rightarrow> True | _ \<Rightarrow> False) evs"

text \<open>
  An agent \<open>bot\<close> with the constructor's defaults, pending rows addressed to it, and
  a store holding \<open>k\<close> pending rows with ids \<open>m001\<close>, \<open>m002\<close>, ... and
  timestamps \<open>1\<close>, \<open>2\<close>, ...
\<close>

definition bot :: pystr where
  "bot = py ''bot''"

definition manager0 :: queue_manager where
  "manager0 = init bot False 1 True 10 240"

definition pending_row :: "pystr \<Rightarrow> int \<Rightarrow> queued_message" where
  "pending_row i t =
     \<lparr>m_id = i, m_agent = bot, m_sender = py ''bob'', m_content = py ''@bot hello'',
      m_timestamp = t, m_status = Pending\<rparr>"

definition store_of :: "queued_message list \<Rightarrow> store_state" where
  "store_of rs = \<lparr>rows = rs, clock = 1000, paused = False, resume_due = False\<rparr>"

definition backlog_of :: "nat \<Rightarrow> store_state" where
  "backlog_of k =
     store_of (map (\<lambda>i. pending_row
                          (py ''m'' @ [48 + i div 100, 48 + (i div 10) mod 10, 48 + i mod 10])
                          (int i))
                   [1..<Suc k])"

text \<open>The arguments of the \<open>asyncio.sleep\<close> calls among the events of a run.\<close>

definition sleeps :: "event list \<Rightarrow> pyval list" where
  "sleeps evs = concat (map (\<lambda>e. case e of Sleep v \<Rightarrow> [v] | _ \<Rightarrow> []) evs)"


text \<open>The test that classifies an error as a rate limit.\<close>

definition rate_limited :: "pystr \<Rightarrow> bool" where
  "rate_limited error_str =
     (contains (py ''HTTP 429'') error_str \<or> contains (py ''rate_limited'') (lower error_str))"

text \<open>
  What holds of the poller's backoff fields in every state the loop reaches from the
  constructor's.
\<close>

definition poll_inv :: "queue_manager \<Rightarrow> bool" where
  "poll_inv self =
     (poll_backoff_max self = 60 \<and> 0 < poll_backoff self \<and> poll_backoff self \<le> 60
      \<and> 0 \<le> poll_consecutive_errors self
      \<and> (poll_consecutive_errors self = 0 \<longrightarrow> poll_backoff self = 5))"

text \<open>
  A poll that fails: the call of the iteration raises, and the sleep that follows does
  not. A failure of the connection class is one the classifier calls
  \<open>connection_timeout\<close> or \<open>connection_error\<close>.
\<close>

definition poll_fails :: "(pystr \<Rightarrow> pyval option) \<Rightarrow> queue_manager
    \<Rightarrow> (pystr \<Rightarrow> (pystr \<times> pyval) list \<Rightarrow> tool_result outcome) \<Rightarrow> bool" where
  "poll_fails json_loads self session =
     (case session (py ''messages'') (check_args self) of
        Raises e \<Rightarrow> \<not> sleep_raises (snd (parse_error_and_get_wait_time json_loads self e))
      | _ \<Rightarrow> False)"


text \<open>
  A streak of failures: in each iteration the agent is not paused, so that the poll is
  made, and the poll fails. A failed poll leaves the store as the other tasks left it.
\<close>

fun failure_streak ::
  "'s message_store \<Rightarrow> (pystr \<Rightarrow> pyval option)
     \<Rightarrow> ((pystr \<Rightarrow> (pystr \<times> pyval) list \<Rightarrow> tool_result outcome) \<times> ('s \<Rightarrow> 's)) list
     \<Rightarrow> queue_manager \<Rightarrow> 's \<Rightarrow> bool" where
  "failure_streak store json_loads [] self st = True"
| "failure_streak store json_loads ((session, others) # rest) self st =
     (\<not> is_agent_paused store (agent_name self) (others st)
      \<and> poll_fails json_loads self session
      \<and> failure_streak store json_loads rest self (others st))"




definition no_json :: "pystr \<Rightarrow> pyval option" where
  "no_json s = None"

definition reset_session :: "pystr \<Rightarrow> (pystr \<times> pyval) list \<Rightarrow> tool_result outcome" where
  "reset_session tool args = Raises (py ''ECONNRESET'')"


definition empty_result :: tool_result where
  "empty_result = \<lparr>r_messages = None, r_events = None, r_content = FalsyContent\<rparr>"

definition empty_session :: "pystr \<Rightarrow> (pystr \<times> pyval) list \<Rightarrow> tool_result outcome" where
  "empty_session tool args = Returns empty_result"

definition mention_result :: tool_result where
  "mention_result =
     \<lparr>r_messages = Some [\<lparr>d_id = Some (py ''m001''), d_sender_name = Some (py ''bob''),
                           d_content = Some (py ''@bot hello'')\<rparr>],
      r_events = None, r_content = FalsyContent\<rparr>"

definition mention_session :: "pystr \<Rightarrow> (pystr \<times> pyval) list \<Rightarrow> tool_result outcome" where
  "mention_session tool args = Returns mention_result"

definition undisturbed :: "store_state \<Rightarrow> store_state" where
  "undisturbed s = s"




text \<open>
  \<open>@AGENT\<close> occurs in a content only embedded in other text: every occurrence misses
  the boundary before it (the start of the content or a whitespace character) or the
  boundary after it (a whitespace character or the end of the content).
\<close>

definition embedded_only :: "pystr \<Rightarrow> pystr \<Rightarrow> bool" where
  "embedded_only agent s =
     list_all (\<lambda>i. occurs_at (64 # agent) s i \<longrightarrow>
                    \<not> (left_boundary s i \<and> right_boundary s (i + length (64 # agent))))
       [0..<length s]"

text \<open>
  Three results whose only \<open>@bot\<close> stands inside \<open>task:ping@botnet\<close>: in the
  structured \<open>messages\<close> list, in the \<open>events\<close> list, and in the text format
  (a bullet line from \<open>bob\<close> to \<open>@alice\<close> with an \<open>[id:ab12]\<close> tag).
\<close>

definition embedded_messages :: tool_result where
  "embedded_messages =
     \<lparr>r_messages = Some [\<lparr>d_id = Some (py ''m001''), d_sender_name = Some (py ''bob''),
                           d_content = Some (py ''task:ping@botnet'')\<rparr>],
      r_events = None, r_content = FalsyContent\<rparr>"

definition embedded_events :: tool_result where
  "embedded_events =
     \<lparr>r_messages = None,
      r_events = Some [\<lparr>d_id = Some (py ''e1''), d_sender_name = Some (py ''bob''),
                         d_content = Some (py ''task:ping@botnet'')\<rparr>],
      r_content = FalsyContent\<rparr>"

definition embedded_text :: pystr where
  "embedded_text = 8226 # py '' bob: @alice see task:ping@botnet [id:ab12]''"

definition embedded_text_result :: tool_result where
  "embedded_text_result =
     \<lparr>r_messages = None, r_events = None, r_content = ContentBlocks [TextBlock embedded_text]\<rparr>"

section \<open>Liveness: theorems\<close>

text \<open>
  C10. For every liveness record and every moment of evaluation, \<open>is_alive\<close> is false
  exactly when \<open>last_heartbeat\<close> is absent or the time elapsed since it exceeds the
  record's timeout; and \<open>beat\<close> sets \<open>last_heartbeat\<close> to the current time and
  resets \<open>consecutive_misses\<close> to 0.
\<close>

theorem is_alive_iff_fresh_and_beat_resets:
  "((is_alive now r = False) =
      (last_heartbeat r = None \<or> (\<exists>t. last_heartbeat r = Some t \<and> timeout r < now - t)))
   \<and> last_heartbeat (beat now r) = Some now
   \<and> consecutive_misses (beat now r) = 0"
  by (auto simp: is_alive_def beat_def split: option.splits)


section \<open>The processor: theorems\<close>

subsection \<open>The shape of an iteration\<close>

lemma process_batch_shape:
  assumes "process_batch store handler session self ord B c os st = (st', evs, ctl)"
  shows "\<exists>mid. evs = map (\<lambda>msg. MarkProcessingStarted (m_id msg) (agent_name self)) (c # os)
              @ [Handler (handler_input_of ord B c os)] @ mid
              @ (if ctl = Continue then map (\<lambda>msg. MarkProcessed (m_id msg) (agent_name self)) (c # os) else [])
          \<and> ctl \<noteq> Crash
          \<and> (ctl = Continue \<longrightarrow>
                st' = fold (\<lambda>msg. mark_processed store (m_id msg) (agent_name self)) (c # os)
                        (fold (\<lambda>msg. mark_processing_started store (m_id msg) (agent_name self)) (c # os) st))
          \<and> (case handler (handler_input_of ord B c os) of
                Returns resp \<Rightarrow>
                  (case response_str resp of
                     Some r \<Rightarrow>
                       if r \<noteq> [] \<and> strip r \<noteq> []
                       then mid = [CallTool (py ''messages'') (send_args r (m_id c))]
                            \<and> (ctl = Break) = (session (py ''messages'') (send_args r (m_id c)) = Cancelled)
                       else mid = [] \<and> ctl = Continue
                   | None \<Rightarrow> mid = [] \<and> ctl = Continue)
              | Raises e \<Rightarrow> mid = [] \<and> ctl = Continue
              | Cancelled \<Rightarrow> mid = [] \<and> ctl = Break)"
  using assms
  by (auto simp: process_batch_def Let_def split: outcome.splits option.splits if_splits)

lemma process_batch_no_fetch:
  assumes "process_batch store handler session self ord B c os st = (st', evs, ctl)"
  shows "GetPendingMessages a n ord' batch \<notin> set evs"
  using assms
  by (auto simp: process_batch_def Let_def split: outcome.splits option.splits if_splits)

lemma pause_gate_events:
  "snd (snd (pause_gate store a st)) = [] \<or> snd (snd (pause_gate store a st)) = [CheckAutoResume a]"
  by (simp add: pause_gate_def split: prod.splits)

lemma process_iteration_fetch:
  assumes "process_iteration store handler session kill_switch self st = (st', evs, ctl)"
      and "GetPendingMessages a n ord batch \<in> set evs"
  shows "a = agent_name self \<and> n = 100
         \<and> ord = (if get_backlog_count store a (fst (snd (pause_gate store a st))) > 100 then Asc else Desc)
         \<and> batch = get_pending_messages store a 100 ord (fst (snd (pause_gate store a st)))
         \<and> (\<exists>rest. evs = snd (snd (pause_gate store a st))
                    @ [GetBacklogCount a (get_backlog_count store a (fst (snd (pause_gate store a st)))),
                       GetPendingMessages a n ord batch] @ rest
              \<and> (case batch of
                   [] \<Rightarrow> rest = [Sleep (PyFloat (poll_interval self))] \<and> ctl = Continue
                 | c # os \<Rightarrow>
                     process_batch store handler session self ord
                       (get_backlog_count store a (fst (snd (pause_gate store a st)))) c os
                       (fst (snd (pause_gate store a st))) = (st', rest, ctl)))"
proof -
  have g: "GetPendingMessages a n ord batch \<notin> set (snd (snd (pause_gate store (agent_name self) st)))"
    using pause_gate_events [of store "agent_name self" st] by auto
  show ?thesis
    using assms g
    by (auto simp: process_iteration_def Let_def process_batch_no_fetch
             split: if_splits prod.splits list.splits)
qed


lemma process_iteration_batch:
  assumes run: "process_iteration store handler session kill_switch self st = (st', evs, ctl)"
      and fetch: "GetPendingMessages a n ord (c # os) \<in> set evs"
  shows "\<exists>rest. evs = snd (snd (pause_gate store a st))
                    @ [GetBacklogCount a (get_backlog_count store a (fst (snd (pause_gate store a st)))),
                       GetPendingMessages a n ord (c # os)] @ rest
              \<and> process_batch store handler session self ord
                       (get_backlog_count store a (fst (snd (pause_gate store a st)))) c os
                       (fst (snd (pause_gate store a st))) = (st', rest, ctl)"
proof -
  from process_iteration_fetch [OF run fetch]
  obtain rest where 1: "evs = snd (snd (pause_gate store a st))
                    @ [GetBacklogCount a (get_backlog_count store a (fst (snd (pause_gate store a st)))),
                       GetPendingMessages a n ord (c # os)] @ rest"
    and 2: "(case c # os of
               [] \<Rightarrow> rest = [Sleep (PyFloat (poll_interval self))] \<and> ctl = Continue
             | x # xs \<Rightarrow> process_batch store handler session self ord
                       (get_backlog_count store a (fst (snd (pause_gate store a st)))) x xs
                       (fst (snd (pause_gate store a st))) = (st', rest, ctl))"
    by blast
  from 2 have "process_batch store handler session self ord
                 (get_backlog_count store a (fst (snd (pause_gate store a st)))) c os
                 (fst (snd (pause_gate store a st))) = (st', rest, ctl)"
    by simp
  with 1 show ?thesis by blast
qed

lemma process_iteration_handler:
  assumes "process_iteration store handler session kill_switch self st = (st', evs, ctl)"
      and "Handler inp \<in> set evs"
  shows "GetPendingMessages (agent_name self) 100
           (if get_backlog_count store (agent_name self)
                 (fst (snd (pause_gate store (agent_name self) st))) > 100 then Asc else Desc)
           (get_pending_messages store (agent_name self) 100
              (if get_backlog_count store (agent_name self)
                    (fst (snd (pause_gate store (agent_name self) st))) > 100 then Asc else Desc)
              (fst (snd (pause_gate store (agent_name self) st)))) \<in> set evs
         \<and> get_pending_messages store (agent_name self) 100
              (if get_backlog_count store (agent_name self)
                    (fst (snd (pause_gate store (agent_name self) st))) > 100 then Asc else Desc)
              (fst (snd (pause_gate store (agent_name self) st))) \<noteq> []"
proof -
  have g: "Handler inp \<notin> set (snd (snd (pause_gate store (agent_name self) st)))"
    using pause_gate_events [of store "agent_name self" st] by auto
  show ?thesis
    using assms g
    by (auto simp: process_iteration_def Let_def split: if_splits prod.splits list.splits)
qed

lemma strip_empty_iff: "strip r = [] \<longleftrightarrow> (\<forall>c \<in> set r. isspace c)"
proof
  assume e: "strip r = []"
  have "dropWhile isspace r = []"
  proof (rule ccontr)
    assume ne: "dropWhile isspace r \<noteq> []"
    then have "\<not> isspace (hd (dropWhile isspace r))" by (rule hd_dropWhile)
    moreover have "hd (dropWhile isspace r) \<in> set (rev (dropWhile isspace r))"
      using ne by simp
    ultimately have "dropWhile isspace (rev (dropWhile isspace r)) \<noteq> []"
      by (auto simp: dropWhile_eq_Nil_conv)
    with e show False by (simp add: strip_def)
  qed
  then show "\<forall>c \<in> set r. isspace c" by (simp add: dropWhile_eq_Nil_conv)
next
  assume "\<forall>c \<in> set r. isspace c"
  then have d: "dropWhile isspace r = []" by (simp add: dropWhile_eq_Nil_conv)
  show "strip r = []" by (simp only: strip_def d rev.simps dropWhile.simps)
qed

subsection \<open>Marks around the handler\<close>

text \<open>
  C1. In every processor iteration that fetches a non-empty batch, every fetched message
  is marked processing before the handler is invoked, and every fetched message is marked
  processed before the next iteration begins, whether the handler and the send that
  follows succeed or fail. The events of the iteration split at the one handler call:
  the \<open>mark_processing_started\<close> call of every fetched message stands before it; when
  the loop goes on to a next iteration (\<open>Continue\<close>) the \<open>mark_processed\<close> call of
  every fetched message stands after it and the store is the result of those calls; and
  the loop goes on unless the task is cancelled inside the handler or the send.
\<close>

theorem fetched_messages_marked_around_handler:
  assumes run: "process_iteration store handler session kill_switch self st = (st', evs, ctl)"
      and fetch: "GetPendingMessages a n ord batch \<in> set evs"
      and nonempty: "batch \<noteq> []"
  shows "\<exists>pre inp post.
           evs = pre @ Handler inp # post
         \<and> (\<forall>i. Handler i \<notin> set pre)
         \<and> (\<forall>m \<in> set batch. MarkProcessingStarted (m_id m) a \<in> set pre)
         \<and> (ctl = Continue \<longrightarrow> (\<forall>m \<in> set batch. MarkProcessed (m_id m) a \<in> set post))
         \<and> (ctl = Continue \<longrightarrow>
              st' = fold (\<lambda>m. mark_processed store (m_id m) a) batch
                      (fold (\<lambda>m. mark_processing_started store (m_id m) a) batch
                         (fst (snd (pause_gate store a st)))))
         \<and> (handler inp \<noteq> Cancelled \<and> (\<forall>args. session (py ''messages'') args \<noteq> Cancelled)
              \<longrightarrow> ctl = Continue)"
proof -
  let ?st0 = "fst (snd (pause_gate store a st))"
  let ?gate = "snd (snd (pause_gate store a st))"
  let ?B = "get_backlog_count store a ?st0"
  from nonempty obtain c os where batch: "batch = c # os" by (cases batch) auto
  have a: "a = agent_name self" using process_iteration_fetch [OF run fetch] by simp
  from process_iteration_batch [OF run fetch [unfolded batch]]
  obtain rest where evs: "evs = ?gate @ [GetBacklogCount a ?B, GetPendingMessages a n ord batch] @ rest"
    and pb: "process_batch store handler session self ord ?B c os ?st0 = (st', rest, ctl)"
    unfolding batch by blast
  let ?inp = "handler_input_of ord ?B c os"
  from process_batch_shape [OF pb]
  obtain mid where rest: "rest = map (\<lambda>msg. MarkProcessingStarted (m_id msg) a) batch
              @ [Handler ?inp] @ mid
              @ (if ctl = Continue then map (\<lambda>msg. MarkProcessed (m_id msg) a) batch else [])"
    and nocrash: "ctl \<noteq> Crash"
    and st': "ctl = Continue \<longrightarrow>
                st' = fold (\<lambda>msg. mark_processed store (m_id msg) a) batch
                        (fold (\<lambda>msg. mark_processing_started store (m_id msg) a) batch ?st0)"
    and cases: "(case handler ?inp of
                Returns resp \<Rightarrow>
                  (case response_str resp of
                     Some r \<Rightarrow>
                       if r \<noteq> [] \<and> strip r \<noteq> []
                       then mid = [CallTool (py ''messages'') (send_args r (m_id c))]
                            \<and> (ctl = Break) = (session (py ''messages'') (send_args r (m_id c)) = Cancelled)
                       else mid = [] \<and> ctl = Continue
                   | None \<Rightarrow> mid = [] \<and> ctl = Continue)
              | Raises e \<Rightarrow> mid = [] \<and> ctl = Continue
              | Cancelled \<Rightarrow> mid = [] \<and> ctl = Break)"
    unfolding a batch by blast
  let ?pre = "?gate @ [GetBacklogCount a ?B, GetPendingMessages a n ord batch]
              @ map (\<lambda>msg. MarkProcessingStarted (m_id msg) a) batch"
  let ?post = "mid @ (if ctl = Continue then map (\<lambda>msg. MarkProcessed (m_id msg) a) batch else [])"
  have 1: "evs = ?pre @ Handler ?inp # ?post" by (simp add: evs rest)
  have 2: "\<forall>i. Handler i \<notin> set ?pre"
    using pause_gate_events [of store a st] by auto
  have 3: "\<forall>m \<in> set batch. MarkProcessingStarted (m_id m) a \<in> set ?pre" by auto
  have 4: "ctl = Continue \<longrightarrow> (\<forall>m \<in> set batch. MarkProcessed (m_id m) a \<in> set ?post)" by auto
  have 5: "handler ?inp \<noteq> Cancelled \<and> (\<forall>args. session (py ''messages'') args \<noteq> Cancelled)
              \<longrightarrow> ctl = Continue"
    using cases nocrash by (cases ctl) (auto split: outcome.splits option.splits if_splits)
  show ?thesis using 1 2 3 4 5 st' by blast
qed


theorem fetched_messages_marked_around_handler_witness:
  "\<exists>st' evs ctl.
     process_iteration spec_store (\<lambda>i. Raises (py ''boom'')) (\<lambda>t args. Raises (py ''down'')) False
       manager0 (backlog_of 2) = (st', evs, ctl)
   \<and> GetPendingMessages bot 100 Desc [pending_row (py ''m002'') 2, pending_row (py ''m001'') 1] \<in> set evs
   \<and> [pending_row (py ''m002'') 2, pending_row (py ''m001'') 1] \<noteq> []
   \<and> ctl = Continue
   \<and> (\<exists>pre inp post.
           evs = pre @ Handler inp # post
         \<and> (\<forall>i. Handler i \<notin> set pre)
         \<and> (\<forall>m \<in> set [pending_row (py ''m002'') 2, pending_row (py ''m001'') 1].
               MarkProcessingStarted (m_id m) bot \<in> set pre)
         \<and> (ctl = Continue \<longrightarrow>
              (\<forall>m \<in> set [pending_row (py ''m002'') 2, pending_row (py ''m001'') 1].
                 MarkProcessed (m_id m) bot \<in> set post)))"
proof -
  let ?run = "process_iteration spec_store (\<lambda>i. Raises (py ''boom'')) (\<lambda>t args. Raises (py ''down''))
                False manager0 (backlog_of 2)"
  let ?batch = "[pending_row (py ''m002'') 2, pending_row (py ''m001'') 1]"
  obtain st' evs ctl where run: "?run = (st', evs, ctl)" by (cases ?run) auto
  have evs: "evs = fst (snd ?run)" and ctl: "ctl = snd (snd ?run)" using run by simp_all
  have mem: "GetPendingMessages bot 100 Desc ?batch \<in> set evs" unfolding evs by code_simp
  have ne: "?batch \<noteq> []" by simp
  have c: "ctl = Continue" unfolding ctl by code_simp
  from fetched_messages_marked_around_handler [OF run mem ne] show ?thesis using run mem ne c by blast
qed


lemma process_iteration_fetches:
  assumes "\<not> kill_switch" and "\<not> is_agent_paused store (agent_name self) st"
  shows "GetPendingMessages (agent_name self) 100
           (if get_backlog_count store (agent_name self) st > 100 then Asc else Desc)
           (get_pending_messages store (agent_name self) 100
              (if get_backlog_count store (agent_name self) st > 100 then Asc else Desc) st)
         \<in> set (fst (snd (process_iteration store handler session kill_switch self st)))"
  using assms
  by (simp add: process_iteration_def pause_gate_def Let_def split: list.splits prod.splits)

lemma backlog_100: "get_backlog_count spec_store bot (backlog_of 100) = 100"
  by code_simp

lemma backlog_101: "get_backlog_count spec_store bot (backlog_of 101) = 101"
  by code_simp

lemma not_paused_backlog_of: "\<not> is_agent_paused spec_store a (backlog_of k)"
  by (simp add: spec_store_def backlog_of_def store_of_def)

lemma agent_manager0: "agent_name manager0 = bot"
  by (simp add: manager0_def init_def)

subsection \<open>The fetch order\<close>

text \<open>
  C2. In every processor iteration, the pending messages are fetched in descending order
  (\<open>Desc\<close>, FILO) when the backlog count \<open>B\<close> is at most 100 and in ascending order
  (\<open>Asc\<close>, FIFO) when \<open>B\<close> exceeds 100; \<open>B = 100\<close> selects FILO and
  \<open>B = 101\<close> selects FIFO. \<open>B\<close> is the count the iteration itself reads from the
  store, right before the fetch: an iteration takes nothing over from the one before but
  the store, so there is no hysteresis. The fetch passes the order and the limit 100 to
  the store, whose part it is to sort by timestamp.
\<close>

theorem fetch_order_chosen_from_backlog:
  assumes run: "process_iteration store handler session kill_switch self st = (st', evs, ctl)"
      and fetch: "GetPendingMessages a n ord batch \<in> set evs"
  shows "a = agent_name self \<and> n = 100
         \<and> GetBacklogCount a (backlog_read store self st) \<in> set evs
         \<and> batch = get_pending_messages store a 100 ord (store_at_fetch store self st)
         \<and> (backlog_read store self st \<le> 100 \<longrightarrow> ord = Desc)
         \<and> (100 < backlog_read store self st \<longrightarrow> ord = Asc)
         \<and> (backlog_read store self st = 100 \<longrightarrow> ord = Desc)
         \<and> (backlog_read store self st = 101 \<longrightarrow> ord = Asc)"
  using process_iteration_fetch [OF run fetch]
  by (auto simp: backlog_read_def store_at_fetch_def)

theorem fetch_order_chosen_from_backlog_witness:
  "\<exists>st1 evs1 ctl1 ord1 batch1 st2 evs2 ctl2 ord2 batch2.
      process_iteration spec_store (\<lambda>i. Raises (py ''boom'')) (\<lambda>t args. Raises (py ''down'')) False
        manager0 (backlog_of 100) = (st1, evs1, ctl1)
    \<and> GetPendingMessages bot 100 ord1 batch1 \<in> set evs1
    \<and> backlog_read spec_store manager0 (backlog_of 100) = 100 \<and> ord1 = Desc
    \<and> process_iteration spec_store (\<lambda>i. Raises (py ''boom'')) (\<lambda>t args. Raises (py ''down'')) False
        manager0 (backlog_of 101) = (st2, evs2, ctl2)
    \<and> GetPendingMessages bot 100 ord2 batch2 \<in> set evs2
    \<and> backlog_read spec_store manager0 (backlog_of 101) = 101 \<and> ord2 = Asc"
proof -
  let ?h = "\<lambda>i::handler_input. (Raises (py ''boom'') :: response outcome)"
  let ?s = "\<lambda>(t::pystr) (args::(pystr \<times> pyval) list). (Raises (py ''down'') :: tool_result outcome)"
  let ?r1 = "process_iteration spec_store ?h ?s False manager0 (backlog_of 100)"
  let ?r2 = "process_iteration spec_store ?h ?s False manager0 (backlog_of 101)"
  obtain st1 evs1 ctl1 where run1: "?r1 = (st1, evs1, ctl1)" by (cases ?r1) auto
  obtain st2 evs2 ctl2 where run2: "?r2 = (st2, evs2, ctl2)" by (cases ?r2) auto
  have b1: "backlog_read spec_store manager0 (backlog_of 100) = 100"
    using backlog_100 not_paused_backlog_of
    by (simp add: backlog_read_def store_at_fetch_def pause_gate_def agent_manager0)
  have b2: "backlog_read spec_store manager0 (backlog_of 101) = 101"
    using backlog_101 not_paused_backlog_of
    by (simp add: backlog_read_def store_at_fetch_def pause_gate_def agent_manager0)
  from process_iteration_fetches [of False spec_store manager0 "backlog_of 100" ?h ?s]
  obtain ord1 batch1 where m1: "GetPendingMessages bot 100 ord1 batch1 \<in> set evs1"
    using run1 not_paused_backlog_of by (auto simp: agent_manager0)
  from process_iteration_fetches [of False spec_store manager0 "backlog_of 101" ?h ?s]
  obtain ord2 batch2 where m2: "GetPendingMessages bot 100 ord2 batch2 \<in> set evs2"
    using run2 not_paused_backlog_of by (auto simp: agent_manager0)
  from fetch_order_chosen_from_backlog [OF run1 m1] b1 have o1: "ord1 = Desc" by simp
  from fetch_order_chosen_from_backlog [OF run2 m2] b2 have o2: "ord2 = Asc" by simp
  show ?thesis using run1 run2 m1 m2 b1 b2 o1 o2 by blast
qed

subsection \<open>The handler's input in batch mode\<close>



subsection \<open>The reply\<close>

text \<open>
  C4. In every processor iteration that invokes the handler, if the handler's return
  value coerced to a string is empty or whitespace-only then no \<open>call_tool\<close> is
  issued, and otherwise exactly one is: the tool \<open>messages\<close> with action
  \<open>send\<close>, the response as content, and \<open>parent_message_id\<close> the id of the
  first fetched message of the batch.
\<close>

theorem reply_sent_once_or_suppressed:
  assumes run: "process_iteration store handler session kill_switch self st = (st', evs, ctl)"
      and fetch: "GetPendingMessages a n ord batch \<in> set evs"
      and h: "Handler inp \<in> set evs"
      and ret: "handler inp = Returns resp"
      and str: "response_str resp = Some r"
  shows "tool_calls evs =
           (if r = [] \<or> (\<forall>c \<in> set r. isspace c) then []
            else [CallTool (py ''messages'')
                    [(py ''action'', PyStr (py ''send'')), (py ''content'', PyStr r),
                     (py ''parent_message_id'', PyStr (m_id (hd batch)))]])"
proof -
  define st0 where "st0 = fst (snd (pause_gate store a st))"
  define B where "B = get_backlog_count store a st0"
  have a: "a = agent_name self" and n: "n = 100"
    and ord: "ord = (if B > 100 then Asc else Desc)"
    and batch_eq: "batch = get_pending_messages store a 100 ord st0"
    using process_iteration_fetch [OF run fetch] by (simp_all add: st0_def B_def)
  from process_iteration_handler [OF run h]
  have ne: "batch \<noteq> []"
    unfolding batch_eq ord B_def st0_def a by simp
  from ne obtain c os where batch: "batch = c # os" by (cases batch) auto
  from process_iteration_batch [OF run fetch [unfolded batch]]
  obtain rest where evs: "evs = snd (snd (pause_gate store a st))
                            @ [GetBacklogCount a B, GetPendingMessages a n ord batch] @ rest"
    and pb: "process_batch store handler session self ord B c os st0 = (st', rest, ctl)"
    unfolding batch B_def st0_def by blast
  define inp0 where "inp0 = handler_input_of ord B c os"
  from process_batch_shape [OF pb]
  obtain mid where rest: "rest = map (\<lambda>msg. MarkProcessingStarted (m_id msg) a) batch
              @ [Handler inp0] @ mid
              @ (if ctl = Continue then map (\<lambda>msg. MarkProcessed (m_id msg) a) batch else [])"
    and cases: "(case handler inp0 of
                Returns resp \<Rightarrow>
                  (case response_str resp of
                     Some r \<Rightarrow>
                       if r \<noteq> [] \<and> strip r \<noteq> []
                       then mid = [CallTool (py ''messages'') (send_args r (m_id c))]
                            \<and> (ctl = Break) = (session (py ''messages'') (send_args r (m_id c)) = Cancelled)
                       else mid = [] \<and> ctl = Continue
                   | None \<Rightarrow> mid = [] \<and> ctl = Continue)
              | Raises e \<Rightarrow> mid = [] \<and> ctl = Continue
              | Cancelled \<Rightarrow> mid = [] \<and> ctl = Break)"
    unfolding batch a inp0_def by blast
  have mid_calls: "mid = [] \<or> (\<exists>t args. mid = [CallTool t args])"
    using cases by (auto split: outcome.splits option.splits if_splits)
  have inp: "inp = inp0"
    using h pause_gate_events [of store a st] mid_calls by (auto simp: evs rest)
  have calls: "tool_calls evs = mid"
    using pause_gate_events [of store a st] mid_calls
    by (auto simp: evs rest tool_calls_def filter_map comp_def)
  have hd: "hd batch = c" by (simp add: batch)
  show ?thesis
    using cases ret str unfolding inp calls hd
    by (auto simp: strip_empty_iff send_args_def split: if_splits)
qed

theorem reply_sent_once_or_suppressed_witness:
  "\<exists>st1 evs1 ctl1 st2 evs2 ctl2.
     process_iteration spec_store (\<lambda>i. Returns (StrResponse (py ''hi'')))
       (\<lambda>t args. Returns \<lparr>r_messages = None, r_events = None, r_content = FalsyContent\<rparr>) False
       manager0 (backlog_of 2) = (st1, evs1, ctl1)
   \<and> GetPendingMessages bot 100 Desc [pending_row (py ''m002'') 2, pending_row (py ''m001'') 1] \<in> set evs1
   \<and> Handler (handler_input_of Desc 2 (pending_row (py ''m002'') 2) [pending_row (py ''m001'') 1]) \<in> set evs1
   \<and> tool_calls evs1 =
        [CallTool (py ''messages'')
           [(py ''action'', PyStr (py ''send'')), (py ''content'', PyStr (py ''hi'')),
            (py ''parent_message_id'', PyStr (py ''m002''))]]
   \<and> process_iteration spec_store (\<lambda>i. Returns (StrResponse (py ''  '')))
       (\<lambda>t args. Returns \<lparr>r_messages = None, r_events = None, r_content = FalsyContent\<rparr>) False
       manager0 (backlog_of 2) = (st2, evs2, ctl2)
   \<and> GetPendingMessages bot 100 Desc [pending_row (py ''m002'') 2, pending_row (py ''m001'') 1] \<in> set evs2
   \<and> Handler (handler_input_of Desc 2 (pending_row (py ''m002'') 2) [pending_row (py ''m001'') 1]) \<in> set evs2
   \<and> tool_calls evs2 = []"
proof -
  let ?s = "\<lambda>(t::pystr) (args::(pystr \<times> pyval) list).
              Returns \<lparr>r_messages = None, r_events = None, r_content = FalsyContent\<rparr>"
  let ?h1 = "\<lambda>i::handler_input. Returns (StrResponse (py ''hi''))"
  let ?h2 = "\<lambda>i::handler_input. Returns (StrResponse (py ''  ''))"
  let ?run1 = "process_iteration spec_store ?h1 ?s False manager0 (backlog_of 2)"
  let ?run2 = "process_iteration spec_store ?h2 ?s False manager0 (backlog_of 2)"
  let ?batch = "[pending_row (py ''m002'') 2, pending_row (py ''m001'') 1]"
  let ?inp = "handler_input_of Desc 2 (pending_row (py ''m002'') 2) [pending_row (py ''m001'') 1]"
  obtain st1 evs1 ctl1 where run1: "?run1 = (st1, evs1, ctl1)" by (cases ?run1) auto
  obtain st2 evs2 ctl2 where run2: "?run2 = (st2, evs2, ctl2)" by (cases ?run2) auto
  have evs1: "evs1 = fst (snd ?run1)" using run1 by simp
  have evs2: "evs2 = fst (snd ?run2)" using run2 by simp
  have h1: "Handler ?inp \<in> set evs1" unfolding evs1 by code_simp
  have h2: "Handler ?inp \<in> set evs2" unfolding evs2 by code_simp
  have g1: "GetPendingMessages bot 100 Desc ?batch \<in> set evs1" unfolding evs1 by code_simp
  have g2: "GetPendingMessages bot 100 Desc ?batch \<in> set evs2" unfolding evs2 by code_simp
  have c1: "tool_calls evs1 =
        [CallTool (py ''messages'')
           [(py ''action'', PyStr (py ''send'')), (py ''content'', PyStr (py ''hi'')),
            (py ''parent_message_id'', PyStr (py ''m002''))]]"
    using reply_sent_once_or_suppressed [OF run1 g1 h1, of "StrResponse (py ''hi'')" "py ''hi''"]
    by (simp add: response_str_def py_def isspace_def pending_row_def)
  have c2: "tool_calls evs2 = []"
    using reply_sent_once_or_suppressed [OF run2 g2 h2, of "StrResponse (py ''  '')" "py ''  ''"]
    by (simp add: response_str_def py_def isspace_def)
  show ?thesis using run1 run2 h1 h2 g1 g2 c1 c2 by blast
qed


section \<open>The poller: theorems\<close>

subsection \<open>The classifier and the invariant of the loop\<close>

lemma parse_error_rate_limited:
  assumes "rate_limited e"
  shows "fst (parse_error_and_get_wait_time jl self e) = rate_limit"
    and "snd (parse_error_and_get_wait_time jl self e) = snd (parse_error_and_get_wait_time jl self' e)"
  using assms unfolding rate_limited_def parse_error_and_get_wait_time_def Let_def
  by (simp_all split: option.split pyval.split)

lemma parse_error_other:
  assumes "\<not> rate_limited e"
  shows "fst (parse_error_and_get_wait_time jl self e) \<noteq> rate_limit"
    and "snd (parse_error_and_get_wait_time jl self e) = PyInt (min (poll_backoff self) (poll_backoff_max self))"
    and "fst (parse_error_and_get_wait_time jl self e) = fst (parse_error_and_get_wait_time jl self' e)"
  using assms unfolding rate_limited_def parse_error_and_get_wait_time_def Let_def
  by simp_all


lemma parse_error_sleep_indep:
  "sleep_raises (snd (parse_error_and_get_wait_time jl self e))
     = sleep_raises (snd (parse_error_and_get_wait_time jl self' e))"
  using parse_error_rate_limited(2) [of e jl self self'] parse_error_other(2) [of e jl]
  by (cases "rate_limited e") (simp_all add: sleep_raises_def)


lemma check_args_cong:
  "agent_name self' = agent_name self \<Longrightarrow> mark_read self' = mark_read self
     \<Longrightarrow> check_args self' = check_args self"
  by (simp add: check_args_def)

lemma poll_fails_cong:
  assumes "agent_name self' = agent_name self" and "mark_read self' = mark_read self"
  shows "poll_fails jl self' session = poll_fails jl self session"
proof (cases "session (py ''messages'') (check_args self)")
  case (Raises e)
  then show ?thesis
    using parse_error_sleep_indep [of jl self' e self]
    by (simp only: poll_fails_def check_args_cong [OF assms] outcome.case)
qed (simp_all only: poll_fails_def check_args_cong [OF assms] outcome.case)


lemma failure_streak_cong:
  assumes "agent_name self' = agent_name self" and "mark_read self' = mark_read self"
  shows "failure_streak store jl fs self' st = failure_streak store jl fs self st"
proof (induction fs arbitrary: st)
  case Nil
  show ?case by simp
next
  case (Cons env fs)
  obtain session others where env: "env = (session, others)" by (cases env)
  show ?case
    unfolding env failure_streak.simps Cons.IH poll_fails_cong [OF assms] assms(1) ..
qed

lemma poll_failure_fields:
  assumes "poll_failure jl self e = (self', evs, ctl)"
  shows "agent_name self' = agent_name self \<and> mark_read self' = mark_read self
       \<and> poll_backoff_max self' = poll_backoff_max self
       \<and> poll_consecutive_errors self' = poll_consecutive_errors self + 1
       \<and> evs = [Sleep (snd (parse_error_and_get_wait_time jl self e))]
       \<and> (ctl = Continue) = (\<not> sleep_raises (snd (parse_error_and_get_wait_time jl self e)))
       \<and> (ctl = Continue \<and> fst (parse_error_and_get_wait_time jl self e) \<noteq> rate_limit
            \<longrightarrow> poll_backoff self' = min (poll_backoff self * 2) (poll_backoff_max self))
       \<and> (ctl \<noteq> Continue \<or> fst (parse_error_and_get_wait_time jl self e) = rate_limit
            \<longrightarrow> poll_backoff self' = poll_backoff self)"
  using assms
  by (auto simp: poll_failure_def Let_def split: prod.splits if_splits)

lemma poll_iteration_raises:
  assumes "poll_iteration store jl session self st = (self', st', evs, ctl)"
      and "\<not> is_agent_paused store (agent_name self) st"
      and "session (py ''messages'') (check_args self) = Raises e"
  shows "st' = st \<and> (\<exists>rest. evs = CallTool (py ''messages'') (check_args self) # rest
                        \<and> poll_failure jl self e = (self', rest, ctl))"
  using assms
  by (auto simp: poll_iteration_def Let_def split: prod.splits)

lemma poll_iteration_inv:
  assumes "poll_iteration store jl session self st = (self', st', evs, ctl)"
  shows "agent_name self' = agent_name self \<and> mark_read self' = mark_read self
       \<and> (poll_inv self \<longrightarrow> poll_inv self')"
proof (cases "is_agent_paused store (agent_name self) st")
  case True
  with assms show ?thesis by (simp add: poll_iteration_def Let_def)
next
  case np: False
  show ?thesis
  proof (cases "session (py ''messages'') (check_args self)")
    case (Returns result)
    with assms np show ?thesis
      by (auto simp: poll_iteration_def Let_def reset_backoff_def poll_inv_def
               split: option.splits prod.splits if_splits)
  next
    case (Raises e)
    from poll_iteration_raises [OF assms np Raises]
    obtain rest where pf: "poll_failure jl self e = (self', rest, ctl)" by blast
    from poll_failure_fields [OF pf] show ?thesis
      by (auto simp: poll_inv_def)
  next
    case Cancelled
    with assms np show ?thesis by (simp add: poll_iteration_def Let_def)
  qed
qed

lemma poll_and_store_inv:
  assumes "poll_and_store store jl envs self st = (self', st', evs, ctl)"
  shows "agent_name self' = agent_name self \<and> mark_read self' = mark_read self
       \<and> (poll_inv self \<longrightarrow> poll_inv self')"
  using assms
proof (induction envs arbitrary: self st self' st' evs ctl)
  case Nil
  then show ?case by simp
next
  case (Cons env envs)
  obtain session others where env: "env = (session, others)" by (cases env)
  obtain self1 st1 evs1 ctl1 where
    it: "poll_iteration store jl session self (others st) = (self1, st1, evs1, ctl1)"
    by (cases "poll_iteration store jl session self (others st)") auto
  note i1 = poll_iteration_inv [OF it]
  show ?case
  proof (cases "ctl1 = Continue")
    case True
    obtain self2 st2 evs2 ctl2 where
      r: "poll_and_store store jl envs self1 st1 = (self2, st2, evs2, ctl2)"
      by (cases "poll_and_store store jl envs self1 st1") auto
    from Cons.prems env it True r have "self' = self2" by simp
    with Cons.IH [OF r] i1 show ?thesis by simp
  next
    case False
    with Cons.prems env it have "self' = self1" by simp
    with i1 show ?thesis by simp
  qed
qed

lemma poll_inv_init: "poll_inv (init a mr interval sw sl hb)"
  by (simp add: poll_inv_def init_def)



lemma failure_streak_run:
  assumes "failure_streak store jl fs self st"
      and "poll_and_store store jl fs self st = (self', st', evs, ctl)"
  shows "ctl = Continue
       \<and> poll_consecutive_errors self' = poll_consecutive_errors self + int (length fs)"
  using assms
proof (induction fs arbitrary: self st self' st' evs ctl)
  case Nil
  then show ?case by simp
next
  case (Cons env fs)
  obtain session others where env: "env = (session, others)" by (cases env)
  from Cons.prems(1) have np: "\<not> is_agent_paused store (agent_name self) (others st)"
    and pf: "poll_fails jl self session"
    and rest: "failure_streak store jl fs self (others st)"
    by (simp_all add: env)
  from pf obtain e where e: "session (py ''messages'') (check_args self) = Raises e"
    and ns: "\<not> sleep_raises (snd (parse_error_and_get_wait_time jl self e))"
    by (auto simp: poll_fails_def split: outcome.splits)
  obtain self1 st1 evs1 ctl1 where
    it: "poll_iteration store jl session self (others st) = (self1, st1, evs1, ctl1)"
    by (cases "poll_iteration store jl session self (others st)") auto
  from poll_iteration_raises [OF it np e]
  obtain r where st1: "st1 = others st" and f: "poll_failure jl self e = (self1, r, ctl1)"
    by blast
  from poll_failure_fields [OF f] ns
  have c1: "ctl1 = Continue" and a1: "agent_name self1 = agent_name self"
    and m1: "mark_read self1 = mark_read self"
    and e1: "poll_consecutive_errors self1 = poll_consecutive_errors self + 1"
    by simp_all
  obtain self2 st2 evs2 ctl2 where
    r2: "poll_and_store store jl fs self1 st1 = (self2, st2, evs2, ctl2)"
    by (cases "poll_and_store store jl fs self1 st1") auto
  from Cons.prems(2) env it c1 r2 have eq: "self' = self2" "ctl = ctl2" by simp_all
  have "failure_streak store jl fs self1 st1"
    using rest failure_streak_cong [OF a1 m1, of store jl fs "others st"] st1 by simp
  from Cons.IH [OF this r2] e1 eq show ?case by simp
qed


subsection \<open>Rate limits\<close>



subsection \<open>The backoff ladder\<close>



subsection \<open>The reset\<close>

text \<open>
  C7, as amended. For every error streak of one or more consecutive poll failures, the
  first successful poll that follows resets the poller's backoff to 5 seconds and its
  consecutive-error count to 0 when it comes back empty or yields a mention that the
  store accepts.
\<close>

theorem backoff_reset_after_streak:
  assumes start: "poll_and_store store jl prefix (init agent mr interval sw sl hb) st0 = (self, st, evs0, Continue)"
      and streak: "failure_streak store jl fs self st"
      and ne: "fs \<noteq> []"
      and run: "poll_and_store store jl fs self st = (self1, st1, evs1, ctl1)"
      and np: "\<not> is_agent_paused store (agent_name self1) (others st1)"
      and ok: "session (py ''messages'') (check_args self1) = Returns result"
      and good: "parse_message (agent_name self1) result = None
                 \<or> (\<exists>msg_id sender content.
                       parse_message (agent_name self1) result = Some (msg_id, sender, content)
                       \<and> fst (store_message store msg_id (agent_name self1) sender content (others st1)))"
      and fin: "poll_iteration store jl session self1 (others st1) = (self2, st2, evs2, ctl2)"
  shows "ctl1 = Continue \<and> 0 < poll_consecutive_errors self1
       \<and> poll_backoff self2 = 5 \<and> poll_consecutive_errors self2 = 0 \<and> ctl2 = Continue"
proof -
  from poll_and_store_inv [OF start] poll_inv_init
  have inv: "poll_inv self" by simp
  from failure_streak_run [OF streak run] ne inv
  have c1: "ctl1 = Continue" and pos: "0 < poll_consecutive_errors self1"
    by (cases fs; simp add: poll_inv_def)+
  from fin np ok good pos
  have "poll_backoff self2 = 5 \<and> poll_consecutive_errors self2 = 0 \<and> ctl2 = Continue"
    by (auto simp: poll_iteration_def Let_def reset_backoff_def split: prod.splits)
  with c1 pos show ?thesis by simp
qed

theorem backoff_reset_after_streak_witness:
  "\<exists>self1 st1 evs1 ctl1 self2 st2 evs2 ctl2.
     poll_and_store spec_store no_json [] (init bot False 1 True 10 240) (backlog_of 0)
       = (manager0, backlog_of 0, [], Continue)
   \<and> failure_streak spec_store no_json [(reset_session, undisturbed), (reset_session, undisturbed)]
        manager0 (backlog_of 0)
   \<and> [(reset_session, undisturbed), (reset_session, undisturbed)] \<noteq> []
   \<and> poll_and_store spec_store no_json [(reset_session, undisturbed), (reset_session, undisturbed)]
        manager0 (backlog_of 0) = (self1, st1, evs1, ctl1)
   \<and> poll_backoff self1 = 20 \<and> poll_consecutive_errors self1 = 2
   \<and> \<not> is_agent_paused spec_store (agent_name self1) (undisturbed st1)
   \<and> empty_session (py ''messages'') (check_args self1) = Returns empty_result
   \<and> parse_message (agent_name self1) empty_result = None
   \<and> poll_iteration spec_store no_json empty_session self1 (undisturbed st1) = (self2, st2, evs2, ctl2)
   \<and> poll_backoff self2 = 5 \<and> poll_consecutive_errors self2 = 0"
proof -
  let ?fs = "[(reset_session, undisturbed), (reset_session, undisturbed)]"
  let ?run = "poll_and_store spec_store no_json ?fs manager0 (backlog_of 0)"
  obtain self1 st1 evs1 ctl1 where run: "?run = (self1, st1, evs1, ctl1)" by (cases ?run) auto
  let ?fin = "poll_iteration spec_store no_json empty_session self1 (undisturbed st1)"
  obtain self2 st2 evs2 ctl2 where fin: "?fin = (self2, st2, evs2, ctl2)" by (cases ?fin) auto
  have start: "poll_and_store spec_store no_json [] (init bot False 1 True 10 240) (backlog_of 0)
       = (manager0, backlog_of 0, [], Continue)"
    by (simp add: manager0_def)
  have streak: "failure_streak spec_store no_json ?fs manager0 (backlog_of 0)" by code_simp
  have ne: "?fs \<noteq> []" by simp
  have self1: "self1 = fst ?run" and st1: "st1 = fst (snd ?run)" using run by simp_all
  have b1: "poll_backoff self1 = 20" unfolding self1 by code_simp
  have e1: "poll_consecutive_errors self1 = 2" unfolding self1 by code_simp
  have np: "\<not> is_agent_paused spec_store (agent_name self1) (undisturbed st1)"
    unfolding self1 st1 by code_simp
  have ok: "empty_session (py ''messages'') (check_args self1) = Returns empty_result"
    by (simp add: empty_session_def)
  have none: "parse_message (agent_name self1) empty_result = None"
    by (simp add: parse_message_def empty_result_def)
  have good: "parse_message (agent_name self1) empty_result = None
                 \<or> (\<exists>msg_id sender content.
                       parse_message (agent_name self1) empty_result = Some (msg_id, sender, content)
                       \<and> fst (store_message spec_store msg_id (agent_name self1) sender content
                                (undisturbed st1)))"
    using none by simp
  from backoff_reset_after_streak [where others = undisturbed and session = empty_session and result = empty_result,
            OF start streak ne run np ok good fin]
  have "poll_backoff self2 = 5 \<and> poll_consecutive_errors self2 = 0" by simp
  with start streak ne run b1 e1 np ok none fin show ?thesis by blast
qed

text \<open>
  C7 as stated fails: a successful poll that yields a mention the store already holds
  (\<open>store_message\<close> returns false) takes the branch \<open>Failed to store message\<close>,
  which resets nothing. After one connection reset and such a poll the backoff is 10
  and the error count 1.
\<close>

theorem duplicate_mention_keeps_backoff:
  "reset_session (py ''messages'') (check_args manager0) = Raises (py ''ECONNRESET'')
   \<and> mention_session (py ''messages'') (check_args manager0) = Returns mention_result
   \<and> parse_message bot mention_result = Some (py ''m001'', py ''bob'', py ''@bot hello'')
   \<and> snd (snd (snd (poll_and_store spec_store no_json
                       [(reset_session, undisturbed), (mention_session, undisturbed)]
                       manager0 (backlog_of 1)))) = Continue
   \<and> sleeps (fst (snd (snd (poll_and_store spec_store no_json
                       [(reset_session, undisturbed), (mention_session, undisturbed)]
                       manager0 (backlog_of 1))))) = [PyInt 5]
   \<and> poll_backoff (fst (poll_and_store spec_store no_json
                       [(reset_session, undisturbed), (mention_session, undisturbed)]
                       manager0 (backlog_of 1))) = 10
   \<and> poll_consecutive_errors (fst (poll_and_store spec_store no_json
                       [(reset_session, undisturbed), (mention_session, undisturbed)]
                       manager0 (backlog_of 1))) = 1"
  by code_simp


section \<open>The startup sweep: theorems\<close>

lemma tool_calls_append: "tool_calls (xs @ ys) = tool_calls xs @ tool_calls ys"
  by (simp add: tool_calls_def)








section \<open>The mention parser: theorems\<close>

lemma embedded_only_no_mention: "embedded_only agent s \<Longrightarrow> \<not> direct_mention agent s"
  by (auto simp: embedded_only_def direct_mention_def mention_at_def list_all_iff list_ex_iff)

lemma scan_messages_none:
  "\<forall>m \<in> set msgs. \<not> direct_mention agent (get_or (d_content m) []) \<Longrightarrow> scan_messages agent msgs = None"
  by (induction msgs) (simp_all add: Let_def)

lemmas mention_defs = embedded_only_def direct_mention_def mention_at_def occurs_at_def
  left_boundary_def right_boundary_def startswith_def isspace_def py_def bot_def

lemma text_parses:
  "parse_message bot embedded_text_result = Some (py ''ab12'', py ''bob'', embedded_text)"
  by (simp add: parse_message_def embedded_text_result_def parse_text_def embedded_text_def
                match_id_def match_mention_line_def id_char_def Let_def startswith_def isspace_def
                py_def bot_def)

text \<open>
  C9, as amended. For every parser input that exposes a non-empty structured
  \<open>messages\<close> list in whose contents \<open>@AGENT\<close> occurs only embedded inside other
  text, the mention parser returns "no relevant mention".
\<close>

theorem embedded_mentions_in_messages_rejected:
  assumes "r_messages result = Some msgs" and "msgs \<noteq> []"
      and "\<forall>m \<in> set msgs. embedded_only agent (get_or (d_content m) [])"
  shows "parse_message agent result = None"
proof -
  from assms(3) have "\<forall>m \<in> set msgs. \<not> direct_mention agent (get_or (d_content m) [])"
    by (blast dest: embedded_only_no_mention)
  then have "scan_messages agent msgs = None" by (rule scan_messages_none)
  with assms(1,2) show ?thesis
    by (cases msgs) (simp_all add: parse_message_def)
qed

theorem embedded_mentions_in_messages_rejected_witness:
  "r_messages embedded_messages
     = Some [\<lparr>d_id = Some (py ''m001''), d_sender_name = Some (py ''bob''),
               d_content = Some (py ''task:ping@botnet'')\<rparr>]
   \<and> [\<lparr>d_id = Some (py ''m001''), d_sender_name = Some (py ''bob''),
        d_content = Some (py ''task:ping@botnet'')\<rparr>] \<noteq> []
   \<and> embedded_only bot (py ''task:ping@botnet'')
   \<and> parse_message bot embedded_messages = None"
proof -
  let ?msgs = "[\<lparr>d_id = Some (py ''m001''), d_sender_name = Some (py ''bob''),
                  d_content = Some (py ''task:ping@botnet'')\<rparr>]"
  have 1: "r_messages embedded_messages = Some ?msgs" by (simp add: embedded_messages_def)
  have 2: "?msgs \<noteq> []" by simp
  have e: "embedded_only bot (py ''task:ping@botnet'')" by (simp add: mention_defs)
  then have 3: "\<forall>m \<in> set ?msgs. embedded_only bot (get_or (d_content m) [])"
    by (simp add: get_or_def)
  from embedded_mentions_in_messages_rejected [OF 1 2 3] 1 2 e show ?thesis by simp
qed

text \<open>
  C9 as stated, for every parser input, fails: the \<open>events\<close> format returns its first
  event without looking for a mention, and the text format only asks that the text
  contain \<open>@AGENT\<close> somewhere. In both results below \<open>@bot\<close> occurs only inside
  \<open>task:ping@botnet\<close>, after \<open>g\<close> and before \<open>n\<close>, and the parser returns
  the message.
\<close>

theorem embedded_mention_accepted_in_events_and_text:
  "occurs_at (64 # bot) (py ''task:ping@botnet'') 9
   \<and> \<not> left_boundary (py ''task:ping@botnet'') 9
   \<and> \<not> right_boundary (py ''task:ping@botnet'') (9 + length (64 # bot))
   \<and> embedded_only bot (py ''task:ping@botnet'')
   \<and> parse_message bot embedded_events = Some (py ''e1'', py ''bob'', py ''task:ping@botnet'')
   \<and> embedded_only bot embedded_text
   \<and> parse_message bot embedded_text_result = Some (py ''ab12'', py ''bob'', embedded_text)"
proof -
  have 1: "occurs_at (64 # bot) (py ''task:ping@botnet'') 9
   \<and> \<not> left_boundary (py ''task:ping@botnet'') 9
   \<and> \<not> right_boundary (py ''task:ping@botnet'') (9 + length (64 # bot))"
    by (simp add: mention_defs)
  have 2: "embedded_only bot (py ''task:ping@botnet'')" by (simp add: mention_defs)
  have 3: "parse_message bot embedded_events = Some (py ''e1'', py ''bob'', py ''task:ping@botnet'')"
    by (simp add: parse_message_def embedded_events_def get_or_def)
  have 4: "embedded_only bot embedded_text" by (simp add: mention_defs embedded_text_def)
  from 1 2 3 4 text_parses show ?thesis by simp
qed


end
